theory Spec2Isabelle
  imports Main
begin

section \<open>Types: the free monoid on objects\<close>

text \<open>
  An object is a name; a type (class \<open>Ty\<close>) is the list of its objects. Types are compared
  by their lists of objects (\<open>Ty.__eq__\<close>), which is the equality of the datatype.
\<close>

datatype ob = Ob (ob_name: string)

datatype ty = Ty (objects: "ob list")

text \<open>\<open>Ty.__len__\<close>.\<close>

definition ty_len :: "ty \<Rightarrow> nat" where
  "ty_len t = length (objects t)"

text \<open>\<open>Ty.__matmul__\<close> and \<open>Ty.__add__\<close>: concatenation of the lists of objects.\<close>

definition ty_tensor :: "ty \<Rightarrow> ty \<Rightarrow> ty" where
  "ty_tensor t u = Ty (objects t @ objects u)"

text \<open>
  Python's slicing of a list of length \<open>n\<close>: a bound \<open>i\<close> counts from the end when it is
  negative and is clamped to \<open>0 .. n\<close>; it never raises.
\<close>

definition slice_bound :: "nat \<Rightarrow> int \<Rightarrow> nat" where
  "slice_bound n i =
     (if i < 0 then (if int n + i < 0 then 0 else nat (int n + i))
      else if int n < i then n else nat i)"

definition list_slice :: "'a list \<Rightarrow> int option \<Rightarrow> int option \<Rightarrow> 'a list" where
  "list_slice xs start stop =
     (let n = length xs;
          lo = (case start of None \<Rightarrow> 0 | Some a \<Rightarrow> slice_bound n a);
          hi = (case stop of None \<Rightarrow> n | Some b \<Rightarrow> slice_bound n b)
      in take (hi - lo) (drop lo xs))"

text \<open>\<open>Ty.__getitem__\<close> on a slice: \<open>t[start:stop]\<close>, a missing bound being \<open>None\<close>.\<close>

definition ty_slice :: "ty \<Rightarrow> int option \<Rightarrow> int option \<Rightarrow> ty" where
  "ty_slice t start stop = Ty (list_slice (objects t) start stop)"

text \<open>
  \<open>Ty.__pow__\<close> on an integer: \<open>sum(n * (self, ), Ty())\<close>, the \<open>n\<close>-fold tensor, empty when
  \<open>n \<le> 0\<close>.
\<close>

definition ty_pow :: "ty \<Rightarrow> int \<Rightarrow> ty" where
  "ty_pow t n = foldl ty_tensor (Ty []) (replicate (nat n) t)"

section \<open>Boxes and diagrams\<close>

text \<open>
  An atomic box carries its name, domain, codomain and dagger flag (\<open>Box.__init__\<close>).
  Two boxes are equal when their printed signatures are (\<open>Box.__eq__\<close>); the optional data
  payload is opaque to every operation below and is left out, so that a box is its
  signature and equality of boxes is equality of records.

  A diagram is a domain, a codomain, a list of boxes and a list of integer offsets
  (\<open>Diagram.__init__\<close>); its boxes are atomic boxes. \<open>Diagram.__eq__\<close> compares the four
  attributes, which is equality of records.
\<close>

record box =
  name :: string
  dom_b :: ty
  cod_b :: ty
  dagger_flag :: bool

record diagram =
  dom_d :: ty
  cod_d :: ty
  boxes :: "box list"
  offsets :: "int list"

text \<open>
  The exceptions of the module. \<open>InterchangerError\<close> is a subclass of \<open>AxiomError\<close>: it is
  one of the axiom errors. An axiom error of the constructor carries the two types of its
  message, in the order the message prints them.
\<close>

datatype axiom_error =
    DomainExpected ty ty
  | CodomainExpected ty ty
  | DoesNotCompose diagram diagram
  | InterchangerError box box

datatype error =
    ValueError
  | IndexError nat "int \<times> int"
  | AxiomError axiom_error
  | NotImplementedError diagram

text \<open>\<open>len(diagram)\<close>: the number of boxes.\<close>

definition len :: "diagram \<Rightarrow> nat" where
  "len d = length (boxes d)"

text \<open>
  The two expressions of the loop of \<open>Diagram.__init__\<close>: the part of the scanned type
  that is compared with the domain of a box, \<open>scan[off: off + len(box.dom)]\<close>, and the
  scanned type after the box, \<open>scan[: off] + box.cod + scan[off + len(box.dom):]\<close>.
\<close>

definition scan_sub :: "ty \<Rightarrow> box \<Rightarrow> int \<Rightarrow> ty" where
  "scan_sub scan b off = ty_slice scan (Some off) (Some (off + int (ty_len (dom_b b))))"

definition scan_next :: "ty \<Rightarrow> box \<Rightarrow> int \<Rightarrow> ty" where
  "scan_next scan b off =
     ty_tensor (ty_tensor (ty_slice scan None (Some off)) (cod_b b))
       (ty_slice scan (Some (off + int (ty_len (dom_b b)))) None)"

text \<open>
  The loop of \<open>Diagram.__init__\<close> over \<open>zip(boxes, offsets)\<close>: the scanned type is compared
  with the domain of each box at its offset and then rewritten.
\<close>

fun scan_loop :: "ty \<Rightarrow> (box \<times> int) list \<Rightarrow> error + ty" where
  "scan_loop scan [] = Inr scan"
| "scan_loop scan ((b, off) # rest) =
     (if scan_sub scan b off \<noteq> dom_b b
      then Inl (AxiomError (DomainExpected (scan_sub scan b off) (dom_b b)))
      else scan_loop (scan_next scan b off) rest)"

text \<open>
  \<open>Diagram.__init__\<close> with its \<open>_fast\<close> flag. The checks that an argument has the right
  Python type are those of the HOL types.
\<close>

definition Diagram :: "ty \<Rightarrow> ty \<Rightarrow> box list \<Rightarrow> int list \<Rightarrow> bool \<Rightarrow> error + diagram" where
  "Diagram dom0 cod0 bs os fast =
     (if length bs \<noteq> length os then Inl ValueError
      else if \<not> fast then
        (case scan_loop dom0 (zip bs os) of
           Inl e \<Rightarrow> Inl e
         | Inr scan \<Rightarrow>
             if scan \<noteq> cod0 then Inl (AxiomError (CodomainExpected cod0 scan))
             else Inr \<lparr>dom_d = dom0, cod_d = cod0, boxes = bs, offsets = os\<rparr>)
      else Inr \<lparr>dom_d = dom0, cod_d = cod0, boxes = bs, offsets = os\<rparr>)"

text \<open>
  The fast path on lists of equal length: the object is built with no check. Every
  operation below calls the constructor this way, on lists whose lengths agree whenever
  those of its arguments do.
\<close>

definition Diagram_fast :: "ty \<Rightarrow> ty \<Rightarrow> box list \<Rightarrow> int list \<Rightarrow> diagram" where
  "Diagram_fast dom0 cod0 bs os = \<lparr>dom_d = dom0, cod_d = cod0, boxes = bs, offsets = os\<rparr>"

text \<open>\<open>Id(x)\<close>, and a box seen as the diagram of itself at offset \<open>0\<close> (\<open>Box.__init__\<close>).\<close>

definition Id :: "ty \<Rightarrow> diagram" where
  "Id x = Diagram_fast x x [] []"

definition Box :: "string \<Rightarrow> ty \<Rightarrow> ty \<Rightarrow> box" where
  "Box n dom0 cod0 = \<lparr>name = n, dom_b = dom0, cod_b = cod0, dagger_flag = False\<rparr>"

definition box_diagram :: "box \<Rightarrow> diagram" where
  "box_diagram b = Diagram_fast (dom_b b) (cod_b b) [b] [0]"

text \<open>
  Modelled from the spec: \<open>Box.dagger\<close>, inherited from the module \<open>cat\<close>, which is not
  among the sources. An atomic box flips its dagger flag; as a diagram it exchanges its
  domain and codomain.
\<close>

definition box_dagger :: "box \<Rightarrow> box" where
  "box_dagger b =
     \<lparr>name = name b, dom_b = cod_b b, cod_b = dom_b b, dagger_flag = \<not> dagger_flag b\<rparr>"

text \<open>
  Modelled from the spec: \<open>cat.Diagram.then\<close>, which \<open>Diagram.then\<close> calls first and which
  is not among the sources. It requires \<open>f.cod == g.dom\<close>, else raises an axiom error, and
  concatenates the boxes over \<open>f.dom \<rightarrow> g.cod\<close>. The result is a triple of domain, codomain
  and boxes.
\<close>

definition cat_then :: "diagram \<Rightarrow> diagram \<Rightarrow> error + (ty \<times> ty \<times> box list)" where
  "cat_then f g =
     (if cod_d f \<noteq> dom_d g then Inl (AxiomError (DoesNotCompose f g))
      else Inr (dom_d f, cod_d g, boxes f @ boxes g))"

text \<open>\<open>Diagram.then\<close>, written \<open>>>\<close>.\<close>

definition then_d :: "diagram \<Rightarrow> diagram \<Rightarrow> error + diagram" where
  "then_d f g =
     (case cat_then f g of
        Inl e \<Rightarrow> Inl e
      | Inr (dom0, cod0, bs) \<Rightarrow> Inr (Diagram_fast dom0 cod0 bs (offsets f @ offsets g)))"

text \<open>\<open>Diagram.tensor\<close>, written \<open>@\<close>.\<close>

definition tensor :: "diagram \<Rightarrow> diagram \<Rightarrow> diagram" where
  "tensor f g =
     Diagram_fast (ty_tensor (dom_d f) (dom_d g)) (ty_tensor (cod_d f) (cod_d g))
       (boxes f @ boxes g)
       (offsets f @ map (\<lambda>n. n + int (ty_len (cod_d f))) (offsets g))"

text \<open>\<open>Diagram.dagger\<close>.\<close>

definition dagger :: "diagram \<Rightarrow> diagram" where
  "dagger f =
     Diagram_fast (cod_d f) (dom_d f) (map box_dagger (rev (boxes f))) (rev (offsets f))"

section \<open>Interchange\<close>

text \<open>
  The end of \<open>Diagram.interchange\<close>, once the indices are adjacent and ordered: the boxes
  at \<open>i\<close> and \<open>i + 1\<close> are exchanged when one is entirely to the right or to the left of the
  other.
\<close>

definition interchange_swap :: "diagram \<Rightarrow> nat \<Rightarrow> bool \<Rightarrow> error + diagram" where
  "interchange_swap d i left =
     (let box0 = boxes d ! i; box1 = boxes d ! (i + 1);
          off0 = offsets d ! i; off1 = offsets d ! (i + 1);
          build = (\<lambda>o0 o1. Diagram_fast (dom_d d) (cod_d d)
                     (take i (boxes d) @ [box1, box0] @ drop (i + 2) (boxes d))
                     (take i (offsets d) @ [o1, o0] @ drop (i + 2) (offsets d)))
      in if left \<and> off1 \<ge> off0 + int (ty_len (cod_b box0))
         then Inr (build off0 (off1 - int (ty_len (cod_b box0)) + int (ty_len (dom_b box0))))
         else if off0 \<ge> off1 + int (ty_len (dom_b box1))
         then Inr (build (off0 - int (ty_len (dom_b box1)) + int (ty_len (cod_b box1))) off1)
         else if off1 \<ge> off0 + int (ty_len (cod_b box0))
         then Inr (build off0 (off1 - int (ty_len (cod_b box0)) + int (ty_len (dom_b box0))))
         else Inl (AxiomError (InterchangerError box0 box1)))"

text \<open>
  \<open>Diagram.interchange\<close> on indices at distance at most one: the range check, the case
  \<open>i == j\<close>, the ordering of the indices and the exchange.
\<close>

definition interchange_near :: "diagram \<Rightarrow> int \<Rightarrow> int \<Rightarrow> bool \<Rightarrow> error + diagram" where
  "interchange_near d i j left =
     (if \<not> (0 \<le> i \<and> i < int (len d)) \<or> \<not> (0 \<le> j \<and> j < int (len d))
      then Inl (IndexError (len d) (i, j))
      else if i = j then Inr d
      else interchange_swap d (nat (if j < i then j else i)) left)"

text \<open>One turn of a loop \<open>result = result.interchange(a, b)\<close>: an exception leaves the loop.\<close>

definition walk :: "(int \<Rightarrow> int \<times> int) \<Rightarrow> int \<Rightarrow> error + diagram \<Rightarrow> error + diagram" where
  "walk idx k r =
     (case r of
        Inl e \<Rightarrow> Inl e
      | Inr result \<Rightarrow> interchange_near result (fst (idx k)) (snd (idx k)) False)"

text \<open>
  \<open>Diagram.interchange\<close>. For indices further apart it walks through adjacent exchanges,
  each a call of itself on adjacent indices with the default \<open>left=False\<close>.
\<close>

definition interchange :: "diagram \<Rightarrow> int \<Rightarrow> int \<Rightarrow> bool \<Rightarrow> error + diagram" where
  "interchange d i j left =
     (if \<not> (0 \<le> i \<and> i < int (len d)) \<or> \<not> (0 \<le> j \<and> j < int (len d))
      then Inl (IndexError (len d) (i, j))
      else if i = j then Inr d
      else if j < i - 1
      then fold (walk (\<lambda>k. (i - k, i - k - 1))) (map int [0..<nat (i - j)]) (Inr d)
      else if j > i + 1
      then fold (walk (\<lambda>k. (i + k, i + k + 1))) (map int [0..<nat (j - i)]) (Inr d)
      else interchange_swap d (nat (if j < i then j else i)) left)"

section \<open>Normalisation\<close>

text \<open>
  The \<open>for\<close> loop of \<open>Diagram.normalize\<close> over the positions still to scan: the first pair
  that passes the test of the chosen direction and whose interchange succeeds ends the
  loop (\<open>break\<close>); an interchanger error is caught and the scan goes on; any other
  exception leaves the generator.
\<close>

fun normalize_scan :: "bool \<Rightarrow> diagram \<Rightarrow> nat list \<Rightarrow> error + diagram" where
  "normalize_scan left d [] = Inr d"
| "normalize_scan left d (i # rest) =
     (let box0 = boxes d ! i; box1 = boxes d ! (i + 1);
          off0 = offsets d ! i; off1 = offsets d ! (i + 1)
      in if (left \<and> off1 \<ge> off0 + int (ty_len (cod_b box0)))
            \<or> (\<not> left \<and> off0 \<ge> off1 + int (ty_len (dom_b box1)))
         then (case interchange d (int i) (int i + 1) left of
                 Inr d' \<Rightarrow> Inr d'
               | Inl (AxiomError (InterchangerError b0 b1)) \<Rightarrow> normalize_scan left d rest
               | Inl e \<Rightarrow> Inl e)
         else normalize_scan left d rest)"

text \<open>
  One turn of the \<open>while True\<close> loop of \<open>Diagram.normalize\<close>, from the current diagram:
  \<open>None\<close> when the generator ends (\<open>diagram == before\<close>), \<open>Some\<close> of the diagram it yields.
\<close>

definition normalize_step :: "bool \<Rightarrow> diagram \<Rightarrow> error + diagram option" where
  "normalize_step left d =
     (case normalize_scan left d [0..<len d - 1] of
        Inl e \<Rightarrow> Inl e
      | Inr d' \<Rightarrow> if d' = d then Inr None else Inr (Some d'))"

text \<open>
  The first \<open>n\<close> diagrams of the generator \<open>normalize\<close> (fewer when it ends before), as
  \<open>next\<close> called \<open>n\<close> times produces them.
\<close>

fun normalize :: "bool \<Rightarrow> diagram \<Rightarrow> nat \<Rightarrow> error + diagram list" where
  "normalize left d 0 = Inr []"
| "normalize left d (Suc n) =
     (case normalize_step left d of
        Inl e \<Rightarrow> Inl e
      | Inr None \<Rightarrow> Inr []
      | Inr (Some d') \<Rightarrow>
          (case normalize left d' n of Inl e \<Rightarrow> Inl e | Inr ds \<Rightarrow> Inr (d' # ds)))"

text \<open>
  The loop of \<open>Diagram.normal_form\<close> from the current diagram and cache. It may run for
  ever: \<open>None\<close> is the computation that does not return.
\<close>

partial_function (option) normal_form_loop ::
  "bool \<Rightarrow> diagram \<Rightarrow> diagram \<Rightarrow> diagram set \<Rightarrow> (error + diagram) option" where
  "normal_form_loop left self diagram cache =
     (case normalize_step left diagram of
        Inl e \<Rightarrow> Some (Inl e)
      | Inr None \<Rightarrow> Some (Inr diagram)
      | Inr (Some d') \<Rightarrow>
          if d' \<in> cache then Some (Inl (NotImplementedError self))
          else normal_form_loop left self d' (insert d' cache))"

definition normal_form :: "bool \<Rightarrow> diagram \<Rightarrow> (error + diagram) option" where
  "normal_form left d = normal_form_loop left d d {}"

section \<open>The spiral\<close>

text \<open>The two loops of \<open>_spiral\<close>; \<open>>>\<close> raises when the types do not agree.\<close>

definition then_e :: "error + diagram \<Rightarrow> diagram \<Rightarrow> error + diagram" where
  "then_e r g = (case r of Inl e \<Rightarrow> Inl e | Inr f \<Rightarrow> then_d f g)"

definition spiral :: "int \<Rightarrow> error + diagram" where
  "spiral n_cups =
     (let x = Ty [Ob ''x''];
          unit = Box ''unit'' (Ty []) x; counit = Box ''counit'' x (Ty []);
          cup = Box ''cup'' (ty_tensor x x) (Ty []); cap = Box ''cap'' (Ty []) (ty_tensor x x);
          result = Inr (box_diagram unit);
          result = fold (\<lambda>i r. then_e r
                     (tensor (tensor (Id (ty_pow x i)) (box_diagram cap)) (Id (ty_pow x (i + 1)))))
                     (map int [0..<nat n_cups]) result;
          result = then_e result
                     (tensor (tensor (Id (ty_pow x n_cups)) (box_diagram counit))
                        (Id (ty_pow x n_cups)));
          result = fold (\<lambda>i r. then_e r
                     (tensor (tensor (Id (ty_pow x (n_cups - i - 1))) (box_diagram cup))
                        (Id (ty_pow x (n_cups - i - 1)))))
                     (map int [0..<nat n_cups]) result
      in result)"

section \<open>The scan of a diagram\<close>

text \<open>
  The scanned type after a list of boxes and offsets, with no comparison: the value of
  \<open>scan\<close> in \<open>Diagram.__init__\<close> when the loop reaches the end of the list.
\<close>

fun scan_after :: "ty \<Rightarrow> (box \<times> int) list \<Rightarrow> ty" where
  "scan_after scan [] = scan"
| "scan_after scan ((b, off) # rest) = scan_after (scan_next scan b off) rest"

text \<open>
  The comparison of the loop at position \<open>k\<close>: the domain of the box at \<open>k\<close> is the part
  of the scanned type at its offset, the scanned type being the one after the first \<open>k\<close>
  boxes.
\<close>

definition matches_at :: "ty \<Rightarrow> (box \<times> int) list \<Rightarrow> nat \<Rightarrow> bool" where
  "matches_at dom0 ps k =
     (scan_sub (scan_after dom0 (take k ps)) (fst (ps ! k)) (snd (ps ! k)) = dom_b (fst (ps ! k)))"

section \<open>Facts about lists used below\<close>

lemma swap_take_drop:
  "a + 1 < length xs \<Longrightarrow> take a xs @ [y, x] @ drop (a + 2) xs = xs[a := y, a + 1 := x]"
proof (induction a arbitrary: xs)
  case 0
  then obtain u v zs where "xs = u # v # zs"
    by (cases xs; cases "tl xs") auto
  then show ?case by simp
next
  case (Suc a)
  then obtain u zs where xs: "xs = u # zs" by (cases xs) auto
  with Suc.prems have "a + 1 < length zs" by simp
  from Suc.IH[OF this] xs show ?case by simp
qed

lemma build_swap:
  assumes "a + 1 < length (boxes d)" "a + 1 < length (offsets d)"
  shows "Diagram_fast (dom_d d) (cod_d d)
           (take a (boxes d) @ [b1, b0] @ drop (a + 2) (boxes d))
           (take a (offsets d) @ [o1, o0] @ drop (a + 2) (offsets d))
         = d\<lparr>boxes := (boxes d)[a := b1, a + 1 := b0],
              offsets := (offsets d)[a := o1, a + 1 := o0]\<rparr>"
  unfolding swap_take_drop[OF assms(1)] swap_take_drop[OF assms(2)] Diagram_fast_def
  by (cases d) simp

section \<open>The recursion of interchange\<close>

text \<open>
  The calls that \<open>interchange\<close> makes to itself are on adjacent indices, where it is
  \<open>interchange_near\<close>.
\<close>

lemma interchange_near_eq:
  "\<not> j < i - 1 \<Longrightarrow> \<not> j > i + 1 \<Longrightarrow> interchange d i j left = interchange_near d i j left"
  by (simp add: interchange_def interchange_near_def)

section \<open>Interchange of adjacent boxes\<close>

text \<open>
  Claim C1. For adjacent positions \<open>i\<close> and \<open>i + 1\<close> of a diagram, with entries
  \<open>(box0, off0)\<close> and \<open>(box1, off1)\<close>, and the default \<open>left=False\<close>: when
  \<open>off0 \<ge> off1 + len(box1.dom)\<close> the interchange returns the diagram with the two boxes
  exchanged and \<open>off0\<close> replaced by \<open>off0 - len(box1.dom) + len(box1.cod)\<close>; otherwise, when
  \<open>off1 \<ge> off0 + len(box0.cod)\<close>, it returns the diagram with the two boxes exchanged and
  \<open>off1\<close> replaced by \<open>off1 - len(box0.cod) + len(box0.dom)\<close>. Nothing else changes: the
  other positions, the domain and the codomain are those of the diagram.
\<close>

theorem interchange_adjacent:
  assumes "0 \<le> i" "i + 1 < int (len d)" "length (offsets d) = length (boxes d)"
    and "a = nat i"
    and "box0 = boxes d ! a" "box1 = boxes d ! (a + 1)"
    and "off0 = offsets d ! a" "off1 = offsets d ! (a + 1)"
  shows "(off0 \<ge> off1 + int (ty_len (dom_b box1)) \<longrightarrow>
            interchange d i (i + 1) False
            = Inr (d\<lparr>boxes := (boxes d)[a := box1, a + 1 := box0],
                     offsets := (offsets d)[a := off1,
                        a + 1 := off0 - int (ty_len (dom_b box1)) + int (ty_len (cod_b box1))]\<rparr>))
       \<and> (\<not> off0 \<ge> off1 + int (ty_len (dom_b box1)) \<and> off1 \<ge> off0 + int (ty_len (cod_b box0)) \<longrightarrow>
            interchange d i (i + 1) False
            = Inr (d\<lparr>boxes := (boxes d)[a := box1, a + 1 := box0],
                     offsets := (offsets d)[a := off1 - int (ty_len (cod_b box0))
                        + int (ty_len (dom_b box0)), a + 1 := off0]\<rparr>))"
proof -
  have a: "a + 1 < length (boxes d)" "a + 1 < length (offsets d)"
    using assms by (auto simp: len_def)
  have "interchange d i (i + 1) False = interchange_swap d a False"
    using assms by (simp add: interchange_def)
  then show ?thesis
    unfolding interchange_swap_def Let_def build_swap[OF a]
    using assms(5-8) by simp
qed

text \<open>
  The two cases on the diagrams of the module's first doctest: \<open>f0 @ f1\<close> becomes
  \<open>Id(x) @ f1 >> f0 @ Id(w)\<close> by the second case, and back by the first.
\<close>

theorem interchange_adjacent_witness:
  "interchange (tensor (box_diagram (Box ''f0'' (Ty [Ob ''x'']) (Ty [Ob ''y''])))
                  (box_diagram (Box ''f1'' (Ty [Ob ''z'']) (Ty [Ob ''w''])))) 0 (0 + 1) False
     = Inr (Diagram_fast (Ty [Ob ''x'', Ob ''z'']) (Ty [Ob ''y'', Ob ''w''])
              [Box ''f1'' (Ty [Ob ''z'']) (Ty [Ob ''w'']), Box ''f0'' (Ty [Ob ''x'']) (Ty [Ob ''y''])]
              [1, 0])
   \<and> interchange (Diagram_fast (Ty [Ob ''x'', Ob ''z'']) (Ty [Ob ''y'', Ob ''w''])
              [Box ''f1'' (Ty [Ob ''z'']) (Ty [Ob ''w'']), Box ''f0'' (Ty [Ob ''x'']) (Ty [Ob ''y''])]
              [1, 0]) 0 (0 + 1) False
     = Inr (tensor (box_diagram (Box ''f0'' (Ty [Ob ''x'']) (Ty [Ob ''y''])))
                  (box_diagram (Box ''f1'' (Ty [Ob ''z'']) (Ty [Ob ''w'']))))"
proof -
  let ?f0 = "Box ''f0'' (Ty [Ob ''x'']) (Ty [Ob ''y''])"
  let ?f1 = "Box ''f1'' (Ty [Ob ''z'']) (Ty [Ob ''w''])"
  let ?d = "tensor (box_diagram ?f0) (box_diagram ?f1)"
  let ?e = "Diagram_fast (Ty [Ob ''x'', Ob ''z'']) (Ty [Ob ''y'', Ob ''w'']) [?f1, ?f0] [1, 0]"
  have "interchange ?d 0 (0 + 1) False = Inr ?e"
    using interchange_adjacent[of 0 ?d 0 ?f0 ?f1 0 1]
    by (simp add: tensor_def box_diagram_def Diagram_fast_def Box_def len_def ty_len_def
        ty_tensor_def)
  moreover have "interchange ?e 0 (0 + 1) False = Inr ?d"
    using interchange_adjacent[of 0 ?e 0 ?f1 ?f0 1 0]
    by (simp add: tensor_def box_diagram_def Diagram_fast_def Box_def len_def ty_len_def
        ty_tensor_def)
  ultimately show ?thesis by simp
qed

text \<open>
  Claim C5. For adjacent positions \<open>i\<close> and \<open>j\<close> in range, \<open>a\<close> the smaller one, when
  neither \<open>off0 \<ge> off1 + len(box1.dom)\<close> nor \<open>off1 \<ge> off0 + len(box0.cod)\<close> holds of the
  entries at \<open>a\<close> and \<open>a + 1\<close>, the interchange raises an interchanger error, which is an
  axiom error, naming the two boxes, whatever the flag \<open>left\<close>.
\<close>

theorem interchange_shared_wires:
  assumes "0 \<le> i" "i < int (len d)" "0 \<le> j" "j < int (len d)" "j = i + 1 \<or> i = j + 1"
    and "a = nat (min i j)"
    and "\<not> offsets d ! a \<ge> offsets d ! (a + 1) + int (ty_len (dom_b (boxes d ! (a + 1))))"
    and "\<not> offsets d ! (a + 1) \<ge> offsets d ! a + int (ty_len (cod_b (boxes d ! a)))"
  shows "interchange d i j left
         = Inl (AxiomError (InterchangerError (boxes d ! a) (boxes d ! (a + 1))))"
proof -
  have "nat (if j < i then j else i) = a" using assms by (auto simp: min_def)
  moreover have "i \<noteq> j" "\<not> j < i - 1" "\<not> j > i + 1" using assms by auto
  ultimately have "interchange d i j left = interchange_swap d a left"
    using assms(1-4) by (simp add: interchange_def)
  then show ?thesis using assms(7,8) by (simp add: interchange_swap_def Let_def)
qed

text \<open>
  The doctest of \<open>InterchangerError\<close>: \<open>f: x \<rightarrow> y\<close> followed by \<open>g: y \<rightarrow> z\<close> composes, and the
  two boxes do not commute.
\<close>

theorem interchange_shared_wires_witness:
  "then_d (box_diagram (Box ''f'' (Ty [Ob ''x'']) (Ty [Ob ''y''])))
          (box_diagram (Box ''g'' (Ty [Ob ''y'']) (Ty [Ob ''z''])))
     = Inr (Diagram_fast (Ty [Ob ''x'']) (Ty [Ob ''z''])
              [Box ''f'' (Ty [Ob ''x'']) (Ty [Ob ''y'']), Box ''g'' (Ty [Ob ''y'']) (Ty [Ob ''z''])]
              [0, 0])
   \<and> interchange (Diagram_fast (Ty [Ob ''x'']) (Ty [Ob ''z''])
              [Box ''f'' (Ty [Ob ''x'']) (Ty [Ob ''y'']), Box ''g'' (Ty [Ob ''y'']) (Ty [Ob ''z''])]
              [0, 0]) 0 1 False
     = Inl (AxiomError (InterchangerError (Box ''f'' (Ty [Ob ''x'']) (Ty [Ob ''y'']))
              (Box ''g'' (Ty [Ob ''y'']) (Ty [Ob ''z'']))))"
proof -
  let ?f = "Box ''f'' (Ty [Ob ''x'']) (Ty [Ob ''y''])"
  let ?g = "Box ''g'' (Ty [Ob ''y'']) (Ty [Ob ''z''])"
  let ?d = "Diagram_fast (Ty [Ob ''x'']) (Ty [Ob ''z'']) [?f, ?g] [0, 0]"
  have "then_d (box_diagram ?f) (box_diagram ?g) = Inr ?d"
    by (simp add: then_d_def cat_then_def box_diagram_def Diagram_fast_def Box_def)
  moreover have "interchange ?d 0 1 False = Inl (AxiomError (InterchangerError ?f ?g))"
    using interchange_shared_wires[of 0 ?d 1 0 False]
    by (simp add: Diagram_fast_def Box_def len_def ty_len_def)
  ultimately show ?thesis by simp
qed

text \<open>
  Claim C10. When \<open>i\<close> or \<open>j\<close> is outside \<open>0 \<le> index < len(d)\<close>, the interchange raises an
  \<open>IndexError\<close> carrying the expected range and the two indices, whatever the boxes and
  offsets of the diagram are; it is not an axiom error, hence not an interchanger error.
\<close>

theorem interchange_index_error:
  assumes "\<not> (0 \<le> i \<and> i < int (len d)) \<or> \<not> (0 \<le> j \<and> j < int (len d))"
  shows "interchange d i j left = Inl (IndexError (len d) (i, j))
         \<and> (\<forall>a. interchange d i j left \<noteq> Inl (AxiomError a))"
  using assms by (simp add: interchange_def)

theorem interchange_index_error_witness:
  "\<not> (2 < int (len (box_diagram (Box ''f'' (Ty [Ob ''x'']) (Ty [Ob ''y''])))))
   \<and> interchange (box_diagram (Box ''f'' (Ty [Ob ''x'']) (Ty [Ob ''y'']))) 2 0 False
       = Inl (IndexError 1 (2, 0))
   \<and> interchange (box_diagram (Box ''f'' (Ty [Ob ''x'']) (Ty [Ob ''y'']))) 0 (- 1) True
       = Inl (IndexError 1 (0, - 1))"
  using interchange_index_error[of 2 "box_diagram (Box ''f'' (Ty [Ob ''x'']) (Ty [Ob ''y'']))" 0 False]
    interchange_index_error[of 0 "box_diagram (Box ''f'' (Ty [Ob ''x'']) (Ty [Ob ''y'']))" "- 1" True]
  by (simp add: box_diagram_def Diagram_fast_def len_def)

section \<open>Tensor and dagger\<close>

text \<open>
  Claim C7. The tensor of \<open>f\<close> and \<open>g\<close> has the domain \<open>f.dom @ g.dom\<close> and the codomain
  \<open>f.cod @ g.cod\<close>; its boxes are those of \<open>f\<close> followed by those of \<open>g\<close>; its offsets are
  those of \<open>f\<close>, unchanged, followed by those of \<open>g\<close>, each shifted by \<open>len(f.cod)\<close>.
\<close>

theorem tensor_spec:
  "dom_d (tensor f g) = ty_tensor (dom_d f) (dom_d g)
   \<and> objects (dom_d (tensor f g)) = objects (dom_d f) @ objects (dom_d g)
   \<and> cod_d (tensor f g) = ty_tensor (cod_d f) (cod_d g)
   \<and> objects (cod_d (tensor f g)) = objects (cod_d f) @ objects (cod_d g)
   \<and> boxes (tensor f g) = boxes f @ boxes g
   \<and> take (length (offsets f)) (offsets (tensor f g)) = offsets f
   \<and> drop (length (offsets f)) (offsets (tensor f g))
       = map (\<lambda>n. n + int (ty_len (cod_d f))) (offsets g)"
  by (simp add: tensor_def Diagram_fast_def ty_tensor_def)

lemma box_dagger_involution: "box_dagger (box_dagger b) = b"
  by (simp add: box_dagger_def)

text \<open>
  Claim C9. The dagger of the dagger of a diagram is the diagram itself, under the
  syntactic equality of diagrams.
\<close>

theorem dagger_dagger: "dagger (dagger f) = f"
  by (simp add: dagger_def Diagram_fast_def rev_map box_dagger_involution comp_def)

end
